theory Spec2Isabelle
  imports Complex_Main "HOL-Library.AList"
begin

section \<open>The canvas\<close>

text \<open>
  A canvas element with its 2D context. The bitmap is the list of the painting
  operations done since the bitmap was last reset, oldest first, each with the drawing
  state it was done under; a reset bitmap is the empty list. The canvas also has the
  images that are being loaded to be drawn on it: the \<^verbatim>\<open>onload\<close> handler of such an image
  holds this canvas, whatever becomes of the document in the meantime. The transform is
  always a uniform scale here (\<^verbatim>\<open>setTransform(m, 0, 0, m, 0, 0)\<close>, \<^verbatim>\<open>scale(m, m)\<close>), so
  one factor stands for it. The inline style sizes are those that \<^verbatim>\<open>parseFloat\<close> reads:
  every read in the code comes after \<^verbatim>\<open>initializeStaffContainer\<close> has set them.
\<close>

record draw_state =
  globalCompositeOperation :: string
  lineWidth :: real
  strokeStyle :: string
  fillStyle :: string
  lineCap :: string
  lineJoin :: string
  transform :: real

datatype segment =
    MoveTo real real
  | LineTo real real
  | Ellipse real real real real real real real

datatype paint =
    ClearRect draw_state real real real real
  | Stroke draw_state "segment list"
  | Fill draw_state "segment list"
  | DrawImage draw_state string real real real real

record drawing_listeners =
  isDrawing :: bool
  lastX :: real
  lastY :: real

record canvas =
  style_width :: real
  style_height :: real
  width :: real
  height :: real
  rect_left :: real
  rect_top :: real
  state :: draw_state
  saved :: "draw_state list"
  path :: "segment list"
  bitmap :: "paint list"
  origin_clean :: bool
  listeners :: "drawing_listeners list"
  loading :: "string list"

definition default_state :: draw_state where
  "default_state =
     \<lparr>globalCompositeOperation = ''source-over'', lineWidth = 1, strokeStyle = ''#000000'',
      fillStyle = ''#000000'', lineCap = ''butt'', lineJoin = ''miter'', transform = 1\<rparr>"

text \<open>
  \<^verbatim>\<open>canvas.width\<close> and \<^verbatim>\<open>canvas.height\<close> are attributes of type \<^verbatim>\<open>unsigned long\<close>: the number
  assigned is truncated towards zero and taken modulo \<open>2\<^sup>3\<^sup>2\<close>, and a result above
  \<open>2\<^sup>3\<^sup>1 - 1\<close> gives the default of the attribute (300 and 150). The assignment resets
  the bitmap and the context.
\<close>

definition to_unsigned_long :: "real \<Rightarrow> int" where
  "to_unsigned_long x = (if x < 0 then \<lceil>x\<rceil> else \<lfloor>x\<rfloor>) mod 2 ^ 32"

definition reflected :: "real \<Rightarrow> real \<Rightarrow> real" where
  "reflected dflt x =
     (let n = to_unsigned_long x in if n > 2147483647 then dflt else of_int n)"

definition reset_context :: "canvas \<Rightarrow> canvas" where
  "reset_context c = c\<lparr>state := default_state, saved := [], path := [], bitmap := []\<rparr>"

definition set_width :: "real \<Rightarrow> canvas \<Rightarrow> canvas" where
  "set_width w c = reset_context (c\<lparr>width := reflected 300 w\<rparr>)"

definition set_height :: "real \<Rightarrow> canvas \<Rightarrow> canvas" where
  "set_height h c = reset_context (c\<lparr>height := reflected 150 h\<rparr>)"

definition ctx_save :: "canvas \<Rightarrow> canvas" where
  "ctx_save c = c\<lparr>saved := state c # saved c\<rparr>"

definition ctx_restore :: "canvas \<Rightarrow> canvas" where
  "ctx_restore c = (case saved c of [] \<Rightarrow> c | s # ss \<Rightarrow> c\<lparr>state := s, saved := ss\<rparr>)"

definition setTransform :: "real \<Rightarrow> canvas \<Rightarrow> canvas" where
  "setTransform m c = c\<lparr>state := (state c)\<lparr>transform := m\<rparr>\<rparr>"

definition ctx_scale :: "real \<Rightarrow> canvas \<Rightarrow> canvas" where
  "ctx_scale m c = c\<lparr>state := (state c)\<lparr>transform := transform (state c) * m\<rparr>\<rparr>"

definition clearRect :: "real \<Rightarrow> real \<Rightarrow> real \<Rightarrow> real \<Rightarrow> canvas \<Rightarrow> canvas" where
  "clearRect x y w h c = c\<lparr>bitmap := bitmap c @ [ClearRect (state c) x y w h]\<rparr>"

definition beginPath :: "canvas \<Rightarrow> canvas" where
  "beginPath c = c\<lparr>path := []\<rparr>"

definition moveTo :: "real \<Rightarrow> real \<Rightarrow> canvas \<Rightarrow> canvas" where
  "moveTo x y c = c\<lparr>path := path c @ [MoveTo x y]\<rparr>"

definition lineTo :: "real \<Rightarrow> real \<Rightarrow> canvas \<Rightarrow> canvas" where
  "lineTo x y c = c\<lparr>path := path c @ [LineTo x y]\<rparr>"

definition ellipse ::
  "real \<Rightarrow> real \<Rightarrow> real \<Rightarrow> real \<Rightarrow> real \<Rightarrow> real \<Rightarrow> real \<Rightarrow> canvas \<Rightarrow> canvas" where
  "ellipse x y rx ry rot a0 a1 c = c\<lparr>path := path c @ [Ellipse x y rx ry rot a0 a1]\<rparr>"

definition stroke :: "canvas \<Rightarrow> canvas" where
  "stroke c = c\<lparr>bitmap := bitmap c @ [Stroke (state c) (path c)]\<rparr>"

definition fill :: "canvas \<Rightarrow> canvas" where
  "fill c = c\<lparr>bitmap := bitmap c @ [Fill (state c) (path c)]\<rparr>"




section \<open>Staff layout\<close>

text \<open>
  The staff geometry of \<^verbatim>\<open>src/script.js\<close> (the version with the note tool). A JavaScript
  Number is modelled as a \<^typ>\<open>real\<close>: the arithmetic is the exact one, without the
  rounding of IEEE doubles and without NaN or Infinity. Division by zero, which gives
  Infinity or NaN in JavaScript and 0 in HOL, only happens for a line spacing of 0; no
  statement below is about that case.

  \<^verbatim>\<open>Math.round(x)\<close> is the integer nearest to \<open>x\<close>, a tie going to the larger one:
  \<open>\<lfloor>x + 1/2\<rfloor>\<close>.
\<close>

definition resolutionMultiplier :: real where
  "resolutionMultiplier = 2"

definition eraserWidth :: real where
  "eraserWidth = 10"

definition pencilWidth :: real where
  "pencilWidth = 2"

definition staffLineColor :: string where
  "staffLineColor = ''black''"

definition numStaffLines :: nat where
  "numStaffLines = 5"

definition staffLedgerSpace :: real where
  "staffLedgerSpace = 4"

definition Math_round :: "real \<Rightarrow> real" where
  "Math_round x = of_int \<lfloor>x + 1 / 2\<rfloor>"

definition getLineSpacing :: "canvas \<Rightarrow> real" where
  "getLineSpacing canvas =
     (let displayHeight = style_height canvas
      in displayHeight / (real numStaffLines + staffLedgerSpace))"

definition getStaffLineNumber :: "real \<Rightarrow> real \<Rightarrow> real" where
  "getStaffLineNumber y lineSpacing =
     0.5 * Math_round (2.0 * (y / lineSpacing - staffLedgerSpace / 2))"

definition getYForStaffLineNumber :: "real \<Rightarrow> real \<Rightarrow> real" where
  "getYForStaffLineNumber staffLineNumber lineSpacing =
     Math_round (lineSpacing * (staffLineNumber + staffLedgerSpace / 2))"

text \<open>The body of the loop of \<^verbatim>\<open>drawStaffLines\<close>, then the function.\<close>

definition strokeStaffLine :: "real \<Rightarrow> real \<Rightarrow> nat \<Rightarrow> canvas \<Rightarrow> canvas" where
  "strokeStaffLine displayWidth lineSpacing i c =
     (let y = getYForStaffLineNumber (real i) lineSpacing
      in stroke (lineTo (displayWidth - 5) y (moveTo 5 y (beginPath c))))"

definition drawStaffLines :: "canvas \<Rightarrow> canvas" where
  "drawStaffLines canvas =
     (let displayHeight = style_height canvas;
          displayWidth = style_width canvas;
          lineSpacing = getLineSpacing canvas;
          c1 = ctx_save canvas;
          c2 = c1\<lparr>state := (state c1)\<lparr>strokeStyle := staffLineColor\<rparr>\<rparr>;
          c3 = c2\<lparr>state := (state c2)\<lparr>lineWidth := 1\<rparr>\<rparr>;
          c4 = clearRect 0 0 displayWidth displayHeight c3;
          c5 = foldl (\<lambda>c i. strokeStaffLine displayWidth lineSpacing i c) c4
                 [0 ..< numStaffLines]
      in ctx_restore c5)"

text \<open>
  The earlier iteration of \<^verbatim>\<open>drawStaffLines\<close> (first half of \<^verbatim>\<open>src/script.js\<close> and
  \<^verbatim>\<open>src/unnamed/part_000\<close>) divides by \<open>numLines + ledgerSpace - 1\<close> and rounds inline.
\<close>

definition drawStaffLines_v1 :: "canvas \<Rightarrow> canvas" where
  "drawStaffLines_v1 canvas =
     (let numLines = (5::nat); ledgerSpace = 4;
          displayHeight = style_height canvas;
          displayWidth = style_width canvas;
          lineSpacing = displayHeight / (real numLines + ledgerSpace - 1);
          c1 = ctx_save canvas;
          c2 = c1\<lparr>state := (state c1)\<lparr>strokeStyle := ''black''\<rparr>\<rparr>;
          c3 = c2\<lparr>state := (state c2)\<lparr>lineWidth := 1\<rparr>\<rparr>;
          c4 = clearRect 0 0 displayWidth displayHeight c3;
          c5 = foldl (\<lambda>c i.
                 let y = Math_round (lineSpacing * (real i + ledgerSpace / 2))
                 in stroke (lineTo (displayWidth - 5) y (moveTo 5 y (beginPath c)))) c4
                 [0 ..< numLines]
      in ctx_restore c5)"

text \<open>The vertical offsets of the segments a canvas has had stroked, oldest first.\<close>

fun stroked_ys :: "paint list \<Rightarrow> real list" where
  "stroked_ys [] = []"
| "stroked_ys (Stroke s [MoveTo x1 y1, LineTo x2 y2] # ps) = y2 # stroked_ys ps"
| "stroked_ys (p # ps) = stroked_ys ps"

section \<open>Snapshot values and the host\<close>

text \<open>
  The values that the code reads from a snapshot: those that \<^verbatim>\<open>JSON.parse\<close> returns, and
  the members that an object inherits from \<^verbatim>\<open>Object.prototype\<close> (functions, and for
  \<^verbatim>\<open>__proto__\<close> the prototype itself), which are named by their key. An object is the list
  of its own entries, each key once, in the order of their insertion (the order of its
  keys, as long as none is an array index).
\<close>

datatype error = SyntaxError | TypeError | SecurityError | QuotaExceededError

datatype json =
    JNull
  | JBool bool
  | JNumber real
  | JString string
  | JArray "json list"
  | JObject "(string \<times> json) list"
  | JBuiltin string

definition Object_prototype :: "string list" where
  "Object_prototype =
     [''constructor'', ''__proto__'', ''hasOwnProperty'', ''isPrototypeOf'',
      ''propertyIsEnumerable'', ''toLocaleString'', ''toString'', ''valueOf'',
      ''__defineGetter__'', ''__defineSetter__'', ''__lookupGetter__'', ''__lookupSetter__'']"

fun truthy :: "json option \<Rightarrow> bool" where
  "truthy None = False"
| "truthy (Some JNull) = False"
| "truthy (Some (JBool b)) = b"
| "truthy (Some (JNumber x)) = (x \<noteq> 0)"
| "truthy (Some (JString s)) = (s \<noteq> [])"
| "truthy (Some v) = True"

text \<open>
  The assignment \<^verbatim>\<open>obj[k] = v\<close> of a string \<open>v\<close> to an object made by \<^verbatim>\<open>{}\<close>: it sets the
  own entry, except for the key \<^verbatim>\<open>__proto__\<close>, where it runs the setter inherited from
  \<^verbatim>\<open>Object.prototype\<close>, which ignores a string and makes no entry.
\<close>

definition assign_string :: "string \<Rightarrow> string \<Rightarrow> (string \<times> json) list \<Rightarrow> (string \<times> json) list" where
  "assign_string k v obj = (if k = ''__proto__'' then obj else AList.update k (JString v) obj)"

datatype log = ConsoleLog string | ConsoleWarn string | ConsoleError string | ConsoleThrown error

section \<open>The document\<close>

text \<open>
  The children of the editable area, in document order: text (any markup that is not a
  staff container) and staff containers. A container has what the code looks up in it:
  \<^verbatim>\<open>data-id\<close>, \<^verbatim>\<open>data-tool\<close>, the canvas \<^verbatim>\<open>.staff-lines\<close>, the canvas \<^verbatim>\<open>.drawing-area\<close>,
  and the \<^verbatim>\<open>.tool-buttons\<close> element with its buttons, each a \<^verbatim>\<open>data-tool\<close> and whether
  it has the class \<^verbatim>\<open>active\<close>.
\<close>

record container =
  dataset_id :: "string option"
  dataset_tool :: "string option"
  staff_lines :: "canvas option"
  drawing_area :: "canvas option"
  tool_buttons :: "(string \<times> bool) list option"
  contentEditable :: bool

datatype node = Text string | Staff container

text \<open>
  What the browser and the storage do and the code only calls: the JSON parser, the HTML
  parser behind the \<^verbatim>\<open>innerHTML\<close> setter, the serialiser behind its getter, the PNG
  encoder of \<^verbatim>\<open>toDataURL\<close>, the conversion of a value to a string, the members of a
  string, number, boolean or array (its own ones and those of its prototypes), whether an
  image URL is of another origin than the page, and whether a \<^verbatim>\<open>setItem\<close> would exceed the
  quota.
\<close>

record host =
  JSON_parse :: "string \<Rightarrow> error + json"
  parseHTML :: "string \<Rightarrow> node list"
  serializeHTML :: "node list \<Rightarrow> string"
  encodePNG :: "canvas \<Rightarrow> string"
  ToString :: "json \<Rightarrow> string"
  member :: "json \<Rightarrow> string \<Rightarrow> json option"
  crossOrigin :: "string \<Rightarrow> bool"
  quotaExceeded :: "(string \<times> json) list \<Rightarrow> string \<Rightarrow> json \<Rightarrow> bool"

definition to_string :: "host \<Rightarrow> json \<Rightarrow> string" where
  "to_string h v = (case v of JString s \<Rightarrow> s | _ \<Rightarrow> ToString h v)"

text \<open>
  A property read \<^verbatim>\<open>v[k]\<close>. It throws a TypeError on \<^verbatim>\<open>undefined\<close> and \<^verbatim>\<open>null\<close>. On an
  object it gives the own entry, and without one the member inherited from
  \<^verbatim>\<open>Object.prototype\<close>, if \<open>k\<close> names one; \<^verbatim>\<open>undefined\<close> is \<open>None\<close>.
\<close>

fun get_prop :: "host \<Rightarrow> json option \<Rightarrow> string \<Rightarrow> error + json option" where
  "get_prop h None k = Inl TypeError"
| "get_prop h (Some JNull) k = Inl TypeError"
| "get_prop h (Some (JObject kvs)) k =
     Inr (case map_of kvs k of
            Some v \<Rightarrow> Some v
          | None \<Rightarrow> if k \<in> set Object_prototype then Some (JBuiltin k) else None)"
| "get_prop h (Some v) k = Inr (member h v k)"

text \<open>
  The page: the editable area and its metrics, the storage, the console, the alerts shown,
  and the number of calls of the debounced \<^verbatim>\<open>saveState\<close>. The storage keeps, for the text \<^verbatim>\<open>JSON.stringify(v)\<close>, the value \<open>v\<close>.
\<close>

record page =
  editableArea :: "node list"
  clientWidth :: real
  paddingLeft :: real
  paddingRight :: real
  localStorage :: "(string \<times> json) list"
  console :: "log list"
  alerts :: "string list"
  saveState_calls :: nat

text \<open>
  Elements made by the HTML parser are new: a blank bitmap, no listener, no image being
  loaded.
\<close>

definition fresh_canvas :: "canvas \<Rightarrow> canvas" where
  "fresh_canvas c = reset_context (c\<lparr>origin_clean := True, listeners := [], loading := []\<rparr>)"

fun fresh_node :: "node \<Rightarrow> node" where
  "fresh_node (Text t) = Text t"
| "fresh_node (Staff c) =
     Staff (c\<lparr>staff_lines := map_option fresh_canvas (staff_lines c),
              drawing_area := map_option fresh_canvas (drawing_area c)\<rparr>)"

definition set_innerHTML :: "host \<Rightarrow> string \<Rightarrow> node list" where
  "set_innerHTML h markup = map fresh_node (parseHTML h markup)"

fun querySelectorAll_staff :: "node list \<Rightarrow> container list" where
  "querySelectorAll_staff [] = []"
| "querySelectorAll_staff (Text t # ns) = querySelectorAll_staff ns"
| "querySelectorAll_staff (Staff c # ns) = c # querySelectorAll_staff ns"

section \<open>Initialising a staff container\<close>

definition querySelector_button :: "string \<Rightarrow> (string \<times> bool) list \<Rightarrow> (string \<times> bool) option" where
  "querySelector_button tool buttons = find (\<lambda>b. fst b = tool) buttons"

text \<open>\<^verbatim>\<open>button.classList.toggle('active', on)\<close> for the button that the selector finds.\<close>

fun toggle_active :: "string \<Rightarrow> bool \<Rightarrow> (string \<times> bool) list \<Rightarrow> (string \<times> bool) list" where
  "toggle_active tool on [] = []"
| "toggle_active tool on (b # bs) =
     (if fst b = tool then (tool, on) # bs else b # toggle_active tool on bs)"

definition populateToolButtons :: "(string \<times> bool) list \<Rightarrow> (string \<times> bool) list" where
  "populateToolButtons buttonContainer =
     buttonContainer @ [(''write'', False), (''note'', False), (''erase'', False)]"

text \<open>The body of the loop over \<^verbatim>\<open>[bgCanvas, fgCanvas]\<close>.\<close>

definition configureCanvas :: "real \<Rightarrow> real \<Rightarrow> canvas \<Rightarrow> canvas" where
  "configureCanvas finalDisplayWidth displayHeight canvas =
     (let c1 = canvas\<lparr>style_width := finalDisplayWidth\<rparr>;
          c2 = c1\<lparr>style_height := displayHeight\<rparr>;
          c3 = set_width (finalDisplayWidth * resolutionMultiplier) c2;
          c4 = set_height (displayHeight * resolutionMultiplier) c3;
          c5 = setTransform 1 c4
      in ctx_scale resolutionMultiplier c5)"

text \<open>
  \<^verbatim>\<open>addDrawingListeners\<close> binds the gesture handlers to the canvas; they share the
  variables \<^verbatim>\<open>isDrawing\<close>, \<^verbatim>\<open>lastX\<close> and \<^verbatim>\<open>lastY\<close> of the call.
\<close>

definition addDrawingListeners :: "canvas \<Rightarrow> canvas" where
  "addDrawingListeners canvas =
     canvas\<lparr>listeners := listeners canvas @ [\<lparr>isDrawing = False, lastX = 0, lastY = 0\<rparr>]\<rparr>"

text \<open>The click listener of the button container; the argument is the tool of the button hit.\<close>

definition toolButtons_click :: "string \<Rightarrow> container \<Rightarrow> container" where
  "toolButtons_click selectedTool container =
     container\<lparr>dataset_tool := Some selectedTool,
       tool_buttons := map_option
         (\<lambda>bs. toggle_active ''erase'' (selectedTool = ''erase'')
                 (toggle_active ''note'' (selectedTool = ''note'')
                   (toggle_active ''write'' (selectedTool = ''write'') bs)))
         (tool_buttons container)\<rparr>"

text \<open>
  \<^verbatim>\<open>initializeStaffContainer\<close> returns the container as it leaves it and what it wrote to the
  console. A container without an id or with a missing part is left as it is.
\<close>

definition initializeStaffContainer :: "page \<Rightarrow> container \<Rightarrow> container \<times> log list" where
  "initializeStaffContainer pg container =
     (case dataset_id container of
        None \<Rightarrow> (container, [ConsoleError ''Cannot initialize container without data-id''])
      | Some ident \<Rightarrow>
          if ident = [] then
            (container, [ConsoleError ''Cannot initialize container without data-id''])
          else
            (case (staff_lines container, drawing_area container, tool_buttons container) of
               (Some bgCanvas, Some fgCanvas, Some buttonContainer) \<Rightarrow>
                 if querySelector_button ''write'' buttonContainer = None
                    \<or> querySelector_button ''note'' buttonContainer = None
                    \<or> querySelector_button ''erase'' buttonContainer = None
                 then (container, [ConsoleError ''Incomplete staff container structure for ID (missing one or more tool buttons):''])
                 else
                   (let containerPadding = paddingLeft pg + paddingRight pg;
                        availableWidth = clientWidth pg - containerPadding;
                        displayHeight = 64;
                        finalDisplayWidth = (if availableWidth > 100 then availableWidth else 400);
                        bg1 = configureCanvas finalDisplayWidth displayHeight bgCanvas;
                        fg1 = configureCanvas finalDisplayWidth displayHeight fgCanvas;
                        bg2 = drawStaffLines bg1;
                        fg2 = clearRect 0 0 finalDisplayWidth displayHeight fg1;
                        fg3 = addDrawingListeners fg2;
                        newButtonContainer = populateToolButtons [];
                        currentTool = (case dataset_tool container of
                                         None \<Rightarrow> ''write''
                                       | Some t \<Rightarrow> if t = [] then ''write'' else t);
                        buttons = toggle_active ''erase'' (currentTool = ''erase'')
                                    (toggle_active ''note'' (currentTool = ''note'')
                                      (toggle_active ''write'' (currentTool = ''write'')
                                        newButtonContainer))
                    in (container\<lparr>dataset_tool := Some currentTool,
                                   staff_lines := Some bg2,
                                   drawing_area := Some fg3,
                                   tool_buttons := Some buttons,
                                   contentEditable := False\<rparr>, []))
             | _ \<Rightarrow> (container, [ConsoleError ''Incomplete staff container structure for ID (missing one or more tool buttons):''])))"

section \<open>Loading a snapshot\<close>

text \<open>
  \<^verbatim>\<open>loadImageOntoCanvas\<close> sets the \<^verbatim>\<open>src\<close> of a new image whose handlers hold the canvas:
  the loading starts, and one of the two handlers runs later.
\<close>

definition loadImageOntoCanvas :: "string \<Rightarrow> canvas \<Rightarrow> canvas" where
  "loadImageOntoCanvas savedImageDataUrl fgCanvas =
     fgCanvas\<lparr>loading := loading fgCanvas @ [savedImageDataUrl]\<rparr>"


text \<open>
  The body of the loop of \<^verbatim>\<open>loadStateFromObject\<close>. An exception leaves the loop; the result
  has the error, and the container and the page as they are at that point.
\<close>

definition restoreContainer ::
  "host \<Rightarrow> json \<Rightarrow> container \<Rightarrow> page \<Rightarrow> error option \<times> container \<times> page" where
  "restoreContainer h savedState container pg =
     (let (c1, logs) = initializeStaffContainer pg container;
          pg1 = pg\<lparr>console := console pg @ logs\<rparr>;
          ident = (case dataset_id c1 of None \<Rightarrow> ''undefined'' | Some s \<Rightarrow> s)
      in case drawing_area c1 of
           None \<Rightarrow> (Some TypeError, c1, pg1)
         | Some fgCanvas \<Rightarrow>
             (case get_prop h (Some savedState) ''canvases'' of
                Inl e \<Rightarrow> (Some e, c1, pg1)
              | Inr canvases \<Rightarrow>
                  (case get_prop h canvases ident of
                     Inl e \<Rightarrow> (Some e, c1, pg1)
                   | Inr savedImageDataUrl \<Rightarrow>
                       if truthy savedImageDataUrl
                       then (None,
                             c1\<lparr>drawing_area :=
                                  Some (loadImageOntoCanvas
                                          (to_string h (the savedImageDataUrl)) fgCanvas)\<rparr>,
                             pg1)
                       else (None, c1, pg1))))"

fun restoreContainers ::
  "host \<Rightarrow> json \<Rightarrow> node list \<Rightarrow> page \<Rightarrow> error option \<times> node list \<times> page" where
  "restoreContainers h savedState [] pg = (None, [], pg)"
| "restoreContainers h savedState (Text t # ns) pg =
     (case restoreContainers h savedState ns pg of
        (e, ns', pg') \<Rightarrow> (e, Text t # ns', pg'))"
| "restoreContainers h savedState (Staff c # ns) pg =
     (case restoreContainer h savedState c pg of
        (Some e, c', pg') \<Rightarrow> (Some e, Staff c' # ns, pg')
      | (None, c', pg') \<Rightarrow>
          (case restoreContainers h savedState ns pg' of
             (e, ns', pg'') \<Rightarrow> (e, Staff c' # ns', pg'')))"

definition defaultContent :: string where
  "defaultContent = ''Start typing here... or double-click to add a staff.<br><br>''"

definition loadStateFromObject :: "host \<Rightarrow> json \<Rightarrow> page \<Rightarrow> error option \<times> page" where
  "loadStateFromObject h savedState pg =
     (case get_prop h (Some savedState) ''content'' of
        Inl e \<Rightarrow> (Some e, pg)
      | Inr savedContent \<Rightarrow>
          if truthy savedContent then
            (let pg1 = pg\<lparr>editableArea := set_innerHTML h (to_string h (the savedContent))\<rparr>
             in case restoreContainers h savedState (editableArea pg1) pg1 of
                  (Some e, ns, pg2) \<Rightarrow> (Some e, pg2\<lparr>editableArea := ns\<rparr>)
                | (None, ns, pg2) \<Rightarrow>
                    (None, pg2\<lparr>editableArea := ns,
                                console := console pg2 @ [ConsoleLog ''State loaded.'']\<rparr>))
          else
            (None, pg\<lparr>editableArea := set_innerHTML h defaultContent,
                       console := console pg
                         @ [ConsoleLog ''No saved state found, initialized default content.'']\<rparr>))"



section \<open>Saving\<close>

definition localStorageKeyBase :: string where
  "localStorageKeyBase = ''editableMusicNotation_''"

definition stateKey :: string where
  "stateKey = localStorageKeyBase @ ''state''"

definition toDataURL :: "host \<Rightarrow> canvas \<Rightarrow> error + string" where
  "toDataURL h c = (if origin_clean c then Inr (encodePNG h c) else Inl SecurityError)"

text \<open>
  The body of the loop of \<^verbatim>\<open>buildStateObject\<close>: the entries of \<^verbatim>\<open>state.canvases\<close> and the
  console output so far, then with this container.
\<close>

definition saveContainer ::
  "host \<Rightarrow> (string \<times> json) list \<times> log list \<Rightarrow> container \<Rightarrow> (string \<times> json) list \<times> log list" where
  "saveContainer h acc container =
     (case dataset_id container of
        None \<Rightarrow> (fst acc, snd acc @ [ConsoleWarn ''Container found without ID during save:''])
      | Some ident \<Rightarrow>
          if ident = [] then
            (fst acc, snd acc @ [ConsoleWarn ''Container found without ID during save:''])
          else
            (case drawing_area container of
               None \<Rightarrow> acc
             | Some fgCanvas \<Rightarrow>
                 (case toDataURL h fgCanvas of
                    Inr dataUrl \<Rightarrow> (assign_string ident dataUrl (fst acc), snd acc)
                  | Inl e \<Rightarrow>
                      (fst acc,
                       snd acc @ [ConsoleError (''Error saving canvas '' @ ident @ '':'')]))))"

definition buildStateObject :: "host \<Rightarrow> page \<Rightarrow> json \<times> log list" where
  "buildStateObject h pg =
     (let containers = querySelectorAll_staff (editableArea pg);
          (canvases, logs) = foldl (saveContainer h) ([], []) containers
      in (JObject [(''content'', JString (serializeHTML h (editableArea pg))),
                   (''canvases'', JObject canvases)], logs))"

definition quotaAlert :: string where
  "quotaAlert =
     ''Could not save changes. Local storage quota might be exceeded. ''
     @ ''Try removing some staves.''"

definition setItem ::
  "host \<Rightarrow> string \<Rightarrow> json \<Rightarrow> (string \<times> json) list \<Rightarrow> error + (string \<times> json) list" where
  "setItem h k v store =
     (if quotaExceeded h store k v then Inl QuotaExceededError else Inr (AList.update k v store))"

text \<open>
  The function that \<^verbatim>\<open>saveState\<close> debounces: one save. \<^verbatim>\<open>saveState\<close> itself, called by
  the handlers, only arms the timer of the section on debouncing.
\<close>

definition saveState_now :: "host \<Rightarrow> page \<Rightarrow> page" where
  "saveState_now h pg =
     (let (snapshot, logs) = buildStateObject h pg;
          pg1 = pg\<lparr>console := console pg @ logs\<rparr>
      in case setItem h stateKey snapshot (localStorage pg1) of
           Inr store \<Rightarrow> pg1\<lparr>localStorage := store\<rparr>
         | Inl error \<Rightarrow>
             (let pg2 = pg1\<lparr>console := console pg1
                              @ [ConsoleError ''Error saving state to localStorage:'']\<rparr>
              in if error = QuotaExceededError
                 then pg2\<lparr>alerts := alerts pg2 @ [quotaAlert]\<rparr>
                 else pg2))"


text \<open>The ids that have an ink entry in the stored snapshot.\<close>

definition stored_ink_ids :: "page \<Rightarrow> string list" where
  "stored_ink_ids pg =
     (case map_of (localStorage pg) stateKey of
        Some (JObject snapshot) \<Rightarrow>
          (case map_of snapshot ''canvases'' of
             Some (JObject canvases) \<Rightarrow> map fst canvases
           | _ \<Rightarrow> [])
      | _ \<Rightarrow> [])"

text \<open>The ids of the staff containers of the document.\<close>

definition widget_ids :: "page \<Rightarrow> string list" where
  "widget_ids pg =
     concat (map (\<lambda>c. case dataset_id c of None \<Rightarrow> [] | Some i \<Rightarrow> [i])
               (querySelectorAll_staff (editableArea pg)))"

section \<open>Loading from the storage and from pasted JSON\<close>

definition loadState :: "host \<Rightarrow> page \<Rightarrow> error option \<times> page" where
  "loadState h pg =
     (let pg1 = pg\<lparr>console := console pg @ [ConsoleLog ''Loading state...'']\<rparr>;
          savedState = (case map_of (localStorage pg1) stateKey of
                          None \<Rightarrow> JObject []
                        | Some v \<Rightarrow> v)
      in loadStateFromObject h savedState pg1)"


section \<open>Drawing gestures\<close>

text \<open>
  A mouse or touch event, as far as the handlers read it: whether its target is the
  drawing canvas, its list of touches (\<^verbatim>\<open>undefined\<close> for a mouse event), each with its
  position and whether its target is the canvas, and its position.
\<close>

record touch =
  touch_clientX :: real
  touch_clientY :: real
  touch_on_canvas :: bool

record event =
  on_canvas :: bool
  touches :: "touch list option"
  clientX :: real
  clientY :: real

definition getCoords :: "canvas \<Rightarrow> event \<Rightarrow> real \<times> real" where
  "getCoords canvas event =
     (let (cX, cY) = (case touches event of
                        Some (t # ts) \<Rightarrow> (touch_clientX t, touch_clientY t)
                      | _ \<Rightarrow> (clientX event, clientY event))
      in (cX - rect_left canvas, cY - rect_top canvas))"

definition drawNotehead :: "drawing_listeners \<Rightarrow> real \<times> real \<Rightarrow> canvas \<Rightarrow> canvas" where
  "drawNotehead l coords canvas =
     (let lineSpacing = getLineSpacing canvas;
          staffLine = getStaffLineNumber (snd coords) lineSpacing;
          y = getYForStaffLineNumber staffLine lineSpacing;
          minX = min (lastX l - 0.6 * lineSpacing) (fst coords - 0.6 * lineSpacing);
          maxX = max (lastX l + 0.6 * lineSpacing) (fst coords + 0.6 * lineSpacing);
          c1 = clearRect minX 0 (maxX - minX) (height canvas) canvas;
          c2 = c1\<lparr>state := (state c1)\<lparr>fillStyle := ''black''\<rparr>\<rparr>;
          c3 = moveTo (fst coords) y (beginPath c2);
          c4 = ellipse (fst coords) y (0.6 * lineSpacing) (0.45 * lineSpacing)
                 (- 20 * pi / 180) 0 (2 * pi) c3
      in fill c4)"

text \<open>
  The three handlers of one call of \<^verbatim>\<open>addDrawingListeners\<close>, on the variables of the call
  and the canvas. They read the tool of the container when they run.
\<close>

definition startDrawing ::
  "event \<Rightarrow> container \<Rightarrow> drawing_listeners \<times> canvas \<Rightarrow> drawing_listeners \<times> canvas" where
  "startDrawing event container lc =
     (let (l, canvas) = lc
      in if \<not> on_canvas event then lc
         else
           (let coords = getCoords canvas event;
                l1 = l\<lparr>isDrawing := True, lastX := fst coords, lastY := snd coords\<rparr>;
                currentTool = dataset_tool container;
                c1 = ctx_save canvas;
                c2 = (if currentTool = Some ''erase'' then
                        c1\<lparr>state := (state c1)\<lparr>globalCompositeOperation := ''destination-out'',
                                                lineWidth := eraserWidth\<rparr>\<rparr>
                      else if currentTool = Some ''write'' then
                        c1\<lparr>state := (state c1)\<lparr>globalCompositeOperation := ''source-over'',
                                                strokeStyle := ''black'',
                                                lineWidth := pencilWidth\<rparr>\<rparr>
                      else if currentTool = Some ''note'' then drawNotehead l1 coords c1
                      else c1);
                c3 = c2\<lparr>state := (state c2)\<lparr>lineCap := ''round'', lineJoin := ''round''\<rparr>\<rparr>
            in (l1, moveTo (lastX l1) (lastY l1) (beginPath c3))))"

text \<open>
  The second test of \<^verbatim>\<open>draw\<close> reads \<^verbatim>\<open>event.touches[0].target\<close>, which throws when the
  list of touches is empty.
\<close>

definition draw ::
  "event \<Rightarrow> container \<Rightarrow> drawing_listeners \<times> canvas \<Rightarrow> error + drawing_listeners \<times> canvas" where
  "draw event container lc =
     (let (l, canvas) = lc;
          currentTool = dataset_tool container
      in if \<not> isDrawing l then Inr lc
         else
           (case (if on_canvas event then Inr True
                  else (case touches event of
                          None \<Rightarrow> Inr False
                        | Some [] \<Rightarrow> Inl TypeError
                        | Some (t # ts) \<Rightarrow> Inr (touch_on_canvas t))) of
              Inl e \<Rightarrow> Inl e
            | Inr False \<Rightarrow> Inr lc
            | Inr True \<Rightarrow>
                (let coords = getCoords canvas event;
                     c1 = (if currentTool = Some ''note'' then drawNotehead l coords canvas
                           else stroke (lineTo (fst coords) (snd coords) canvas))
                 in Inr (l\<lparr>lastX := fst coords, lastY := snd coords\<rparr>, c1))))"

text \<open>\<^verbatim>\<open>stopDrawing\<close>; the flag says whether it called \<^verbatim>\<open>saveState\<close>.\<close>

definition stopDrawing ::
  "drawing_listeners \<times> canvas \<Rightarrow> (drawing_listeners \<times> canvas) \<times> bool" where
  "stopDrawing lc =
     (let (l, canvas) = lc
      in if \<not> isDrawing l then (lc, False)
         else ((l\<lparr>isDrawing := False\<rparr>, ctx_restore canvas), True))"

section \<open>Debouncing\<close>

text \<open>
  The closure that \<^verbatim>\<open>debounce(func, wait)\<close> returns, with the timers of the browser. Time
  is counted in milliseconds. A timer is its id and the time at which it is due; the
  browser runs the callback of a timer at that time, before any event handler that runs
  from then on. The state has the active timers in the order of their creation, the next
  id, the variable \<^verbatim>\<open>timeout\<close> of the closure, and the times at which \<^verbatim>\<open>func\<close> has run.
\<close>

record debounced =
  timers :: "(nat \<times> nat) list"
  next_id :: nat
  timeout :: "nat option"
  calls :: "nat list"

definition debounce :: debounced where
  "debounce = \<lparr>timers = [], next_id = 1, timeout = None, calls = []\<rparr>"

definition setTimeout :: "nat \<Rightarrow> nat \<Rightarrow> debounced \<Rightarrow> nat \<times> debounced" where
  "setTimeout now wait s =
     (next_id s, s\<lparr>timers := timers s @ [(next_id s, now + wait)], next_id := Suc (next_id s)\<rparr>)"

definition clearTimeout :: "nat option \<Rightarrow> debounced \<Rightarrow> debounced" where
  "clearTimeout t s =
     (case t of None \<Rightarrow> s | Some i \<Rightarrow> s\<lparr>timers := filter (\<lambda>x. fst x \<noteq> i) (timers s)\<rparr>)"

definition later :: "nat \<Rightarrow> debounced \<Rightarrow> debounced" where
  "later now s = (let s1 = clearTimeout (timeout s) s in s1\<lparr>calls := calls s1 @ [now]\<rparr>)"

definition executedFunction :: "nat \<Rightarrow> nat \<Rightarrow> debounced \<Rightarrow> debounced" where
  "executedFunction wait now s =
     (let s1 = clearTimeout (timeout s) s;
          (i, s2) = setTimeout now wait s1
      in s2\<lparr>timeout := Some i\<rparr>)"

text \<open>
  The browser's side: a timer that is still active fires at its due time and is no longer
  active then; before an event at time \<open>t\<close> the timers due by \<open>t\<close> fire, in the order of
  their creation (which is the order of their due times, the delay being the same for
  all). \<open>run_triggers\<close> calls the debounced function at the given times, then lets the
  remaining timers fire.
\<close>

definition fire :: "nat \<times> nat \<Rightarrow> debounced \<Rightarrow> debounced" where
  "fire t s =
     (if t \<in> set (timers s) then later (snd t) (s\<lparr>timers := removeAll t (timers s)\<rparr>) else s)"

definition run_due :: "nat \<Rightarrow> debounced \<Rightarrow> debounced" where
  "run_due t s = foldl (\<lambda>s x. fire x s) s (filter (\<lambda>x. snd x \<le> t) (timers s))"

fun run_triggers :: "nat \<Rightarrow> nat list \<Rightarrow> debounced \<Rightarrow> debounced" where
  "run_triggers wait [] s = foldl (\<lambda>s x. fire x s) s (timers s)"
| "run_triggers wait (t # ts) s = run_triggers wait ts (executedFunction wait t (run_due t s))"

text \<open>\<^verbatim>\<open>saveState\<close> is debounced by one second.\<close>

definition saveState_wait :: nat where
  "saveState_wait = 1000"

text \<open>
  A burst: the triggers are in the order of time and each comes less than \<open>wait\<close> after
  the one before.
\<close>

fun burst :: "nat \<Rightarrow> nat list \<Rightarrow> bool" where
  "burst wait [] = True"
| "burst wait [t] = True"
| "burst wait (t # u # ts) = (t \<le> u \<and> u < t + wait \<and> burst wait (u # ts))"

section \<open>The earlier save, with one storage key for each staff\<close>

text \<open>
  \<^verbatim>\<open>saveState\<close> of \<^verbatim>\<open>src/unnamed/part_000\<close> stores the markup under one key and the ink of each
  staff under a key made of a prefix and the id, and then removes the ink keys of staves
  that are no longer in the document. The storage lists its keys in an order that a
  removal does not change for the keys that stay.
\<close>

definition contentKey :: string where
  "contentKey = localStorageKeyBase @ ''content''"

definition canvasDataPrefix :: string where
  "canvasDataPrefix = localStorageKeyBase @ ''canvas_''"

definition startsWith :: "string \<Rightarrow> string \<Rightarrow> bool" where
  "startsWith s p = (take (length p) s = p)"

text \<open>
  The body of the loop over the containers, on the storage, the set
  \<^verbatim>\<open>currentCanvasKeys\<close> and the console output.
\<close>

definition saveContainer_v1 ::
  "host \<Rightarrow> (string \<times> json) list \<times> string list \<times> log list \<Rightarrow> container
     \<Rightarrow> (string \<times> json) list \<times> string list \<times> log list" where
  "saveContainer_v1 h acc container =
     (case acc of (store, currentCanvasKeys, logs) \<Rightarrow>
        (case dataset_id container of
           None \<Rightarrow> (store, currentCanvasKeys,
                     logs @ [ConsoleWarn ''Container found without ID during save:''])
         | Some ident \<Rightarrow>
             if ident = [] then
               (store, currentCanvasKeys,
                logs @ [ConsoleWarn ''Container found without ID during save:''])
             else
               (case drawing_area container of
                  None \<Rightarrow> acc
                | Some fgCanvas \<Rightarrow>
                    (let canvasKey = canvasDataPrefix @ ident;
                         keys = List.insert canvasKey currentCanvasKeys
                     in case toDataURL h fgCanvas of
                          Inl e \<Rightarrow>
                            (store, keys,
                             logs @ [ConsoleError (''Error saving canvas '' @ ident @ '':'')])
                        | Inr dataUrl \<Rightarrow>
                            (case setItem h canvasKey (JString dataUrl) store of
                               Inl e \<Rightarrow>
                            (store, keys,
                             logs @ [ConsoleError (''Error saving canvas '' @ ident @ '':'')])
                             | Inr store' \<Rightarrow> (store', keys, logs))))))"

text \<open>
  The clean-up loop \<^verbatim>\<open>for (let i = 0; i < localStorage.length; i++)\<close>, from index \<open>i\<close> on:
  it reads the length and the key at \<open>i\<close> anew in each round.
\<close>

function cleanup ::
  "string list \<Rightarrow> nat \<Rightarrow> (string \<times> json) list \<times> log list \<Rightarrow> (string \<times> json) list \<times> log list" where
  "cleanup currentCanvasKeys i (store, logs) =
     (if i < length store then
        (let key = fst (store ! i)
         in if startsWith key canvasDataPrefix \<and> key \<notin> set currentCanvasKeys
            then cleanup currentCanvasKeys (Suc i)
                   (AList.delete key store, logs @ [ConsoleLog ''Removing orphaned canvas data:''])
            else cleanup currentCanvasKeys (Suc i) (store, logs))
      else (store, logs))"
  by pat_completeness auto
termination
  by (relation "measure (\<lambda>(ks, i, store, logs). length store - i)")
    (auto simp: AList.delete_eq intro: le_less_trans [OF diff_le_mono [OF length_filter_le]])

declare cleanup.simps [simp del]

definition saveState_v1 :: "host \<Rightarrow> page \<Rightarrow> page" where
  "saveState_v1 h pg =
     (let pg1 = pg\<lparr>console := console pg @ [ConsoleLog ''Saving state...'']\<rparr>
      in case setItem h contentKey (JString (serializeHTML h (editableArea pg1)))
                (localStorage pg1) of
           Inl error \<Rightarrow>
             (let pg2 = pg1\<lparr>console := console pg1
                              @ [ConsoleError ''Error saving state to localStorage:'']\<rparr>
              in if error = QuotaExceededError
                 then pg2\<lparr>alerts := alerts pg2 @ [quotaAlert]\<rparr>
                 else pg2)
         | Inr store1 \<Rightarrow>
             (let containers = querySelectorAll_staff (editableArea pg1);
                  (store2, currentCanvasKeys, logs) =
                     foldl (saveContainer_v1 h) (store1, [], []) containers;
                  (store3, logs') = cleanup currentCanvasKeys 0 (store2, logs)
              in pg1\<lparr>localStorage := store3,
                      console := console pg1 @ logs' @ [ConsoleLog ''State saved.'']\<rparr>))"

text \<open>The ink keys in the storage.\<close>

definition stored_ink_keys_v1 :: "page \<Rightarrow> string list" where
  "stored_ink_keys_v1 pg =
     filter (\<lambda>k. startsWith k canvasDataPrefix) (map fst (localStorage pg))"

section \<open>Example inputs and auxiliary notions\<close>

text \<open>A canvas element as the HTML parser makes it from \<^verbatim>\<open><canvas></canvas>\<close>.\<close>

definition new_canvas :: canvas where
  "new_canvas =
     \<lparr>style_width = 0, style_height = 0, width = 300, height = 150, rect_left = 0, rect_top = 0,
      state = default_state, saved = [], path = [], bitmap = [], origin_clean = True,
      listeners = [], loading = []\<rparr>"

text \<open>
  The container that the double-click listener makes for a new staff: the id it is given,
  the tool \<^verbatim>\<open>write\<close>, two canvases and the three tool buttons.
\<close>

definition new_container :: "string \<Rightarrow> container" where
  "new_container newId =
     \<lparr>dataset_id = Some newId, dataset_tool = Some ''write'',
      staff_lines = Some new_canvas, drawing_area = Some new_canvas,
      tool_buttons = Some (populateToolButtons []), contentEditable = True\<rparr>"

text \<open>
  A page with the given children, nothing stored and nothing logged; the metrics are those
  of the style sheet (a box of 7.5in with a border of 1px and a padding of 15px).
\<close>

definition page_of :: "node list \<Rightarrow> page" where
  "page_of ns =
     \<lparr>editableArea = ns, clientWidth = 718, paddingLeft = 15, paddingRight = 15,
      localStorage = [], console = [], alerts = [], saveState_calls = 0\<rparr>"

text \<open>
  The markup of a new staff with a given id, as the double-click listener builds it, and
  the markup of a document with a line of text and two staves.
\<close>

definition staff_markup :: "string \<Rightarrow> string" where
  "staff_markup ident =
     ''<div class=staff-container data-id='' @ ident @ '' data-tool=write>''
     @ ''<canvas class=staff-lines></canvas><canvas class=drawing-area></canvas>''
     @ ''<div class=tool-buttons>''
     @ ''<button type=button data-tool=write title=Pencil>p</button>''
     @ ''<button type=button data-tool=note title=Note>n</button>''
     @ ''<button type=button data-tool=erase title=Erase>e</button>''
     @ ''</div></div>''"

definition two_staves :: string where
  "two_staves = ''Allegro '' @ staff_markup ''staff_1'' @ staff_markup ''staff_2''"

text \<open>
  A snapshot of the document with two staves that has ink for the first staff only, and
  its JSON text; a snapshot of a document with one staff, whose id is \<^verbatim>\<open>constructor\<close>, and
  no ink.
\<close>

definition first_staff_snapshot :: json where
  "first_staff_snapshot =
     JObject [(''content'', JString two_staves),
              (''canvases'', JObject [(''staff_1'', JString ''data:image/png;base64,'')])]"

definition quoted :: "string \<Rightarrow> string" where
  "quoted s = CHR 0x22 # s @ [CHR 0x22]"

definition first_staff_text :: string where
  "first_staff_text =
     ''{'' @ quoted ''content'' @ '':'' @ quoted two_staves @ '',''
     @ quoted ''canvases'' @ '':{'' @ quoted ''staff_1'' @ '':''
     @ quoted ''data:image/png;base64,'' @ ''}}''"


text \<open>
  A host for the examples. Its JSON parser knows the texts \<^verbatim>\<open>{}\<close> and \<^verbatim>\<open>null\<close> and the text
  of the snapshot above, and rejects every other text (none of the examples is another
  JSON text). Its HTML parser knows the two documents with staves above and takes every
  other markup for one without staff. Its serialiser writes a staff as the markup of a
  new staff with its id. It converts to a string as the language does for \<^verbatim>\<open>null\<close>,
  booleans, objects and the members of \<^verbatim>\<open>Object.prototype\<close>; no example converts a number
  or an array, or reads a member of a value that is not an object. Every image URL of the
  examples is of the origin of the page, and the storage is never full.
\<close>

definition plain_host :: host where
  "plain_host =
     \<lparr>JSON_parse = (\<lambda>s. if s = ''{}'' then Inr (JObject [])
                        else if s = ''null'' then Inr JNull
                        else if s = first_staff_text then Inr first_staff_snapshot
                        else Inl SyntaxError),
      parseHTML = (\<lambda>s. if s = two_staves
                       then [Text ''Allegro '', Staff (new_container ''staff_1''),
                             Staff (new_container ''staff_2'')]
                       else if s = staff_markup ''constructor''
                       then [Staff (new_container ''constructor'')]
                       else [Text s]),
      serializeHTML =
        (\<lambda>ns. concat (map (\<lambda>n. case n of
                                   Text t \<Rightarrow> t
                                 | Staff c \<Rightarrow> staff_markup (case dataset_id c of
                                                              None \<Rightarrow> [] | Some i \<Rightarrow> i)) ns)),
      encodePNG = (\<lambda>c. ''data:image/png;base64,''),
      ToString = (\<lambda>v. case v of
                         JNull \<Rightarrow> ''null''
                       | JBool b \<Rightarrow> (if b then ''true'' else ''false'')
                       | JString s \<Rightarrow> s
                       | JBuiltin k \<Rightarrow>
                           (if k = ''__proto__'' then ''[object Object]''
                            else if k = ''constructor'' then ''function Object() { [native code] }''
                            else ''function '' @ k @ ''() { [native code] }'')
                       | JObject kvs \<Rightarrow> ''[object Object]''
                       | _ \<Rightarrow> []),
      member = (\<lambda>v k. None),
      crossOrigin = (\<lambda>url. False),
      quotaExceeded = (\<lambda>store k v. False)\<rparr>"

text \<open>
  The ids of the containers whose ink a save exports: those with an id that is neither
  empty nor \<^verbatim>\<open>__proto__\<close> and a drawing canvas that can be read.
\<close>

fun exportable :: "container \<Rightarrow> string list" where
  "exportable c =
     (case (dataset_id c, drawing_area c) of
        (Some i, Some cv) \<Rightarrow>
          if i \<noteq> [] \<and> i \<noteq> ''__proto__'' \<and> origin_clean cv then [i] else []
      | _ \<Rightarrow> [])"

definition exportable_ids :: "page \<Rightarrow> string list" where
  "exportable_ids pg = concat (map exportable (querySelectorAll_staff (editableArea pg)))"




text \<open>
  The pointer moves of one gesture, in order, each with the container as it is when the
  move arrives (its tool may have been changed by a click in between).
\<close>

fun draw_all ::
  "(event \<times> container) list \<Rightarrow> drawing_listeners \<times> canvas \<Rightarrow> error + drawing_listeners \<times> canvas" where
  "draw_all [] lc = Inr lc"
| "draw_all (m # ms) lc =
     (case draw (fst m) (snd m) lc of Inl e \<Rightarrow> Inl e | Inr lc' \<Rightarrow> draw_all ms lc')"

definition is_note :: "container \<Rightarrow> bool" where
  "is_note c = (dataset_tool c = Some ''note'')"


text \<open>
  A mouse event on the canvas at a position, and the variables of a new call of
  \<^verbatim>\<open>addDrawingListeners\<close>.
\<close>

definition mouse_at :: "real \<Rightarrow> real \<Rightarrow> event" where
  "mouse_at x y = \<lparr>on_canvas = True, touches = None, clientX = x, clientY = y\<rparr>"

definition idle :: drawing_listeners where
  "idle = \<lparr>isDrawing = False, lastX = 0, lastY = 0\<rparr>"

section \<open>Properties of the staff layout\<close>

lemmas canvas_ops = ctx_save_def ctx_restore_def clearRect_def stroke_def lineTo_def moveTo_def
  beginPath_def setTransform_def ctx_scale_def set_width_def set_height_def reset_context_def

text \<open>
  With a line spacing of at least 2, the rounding of the vertical offset moves it by less
  than a quarter of the spacing, and the snap finds the line again.
\<close>

lemma snap_roundtrip_spacing:
  fixes ls :: real and n :: int
  assumes ls: "2 \<le> ls"
  shows "getStaffLineNumber (getYForStaffLineNumber (of_int n) ls) ls = of_int n"
proof -
  define x where "x = ls * (of_int n + 2)"
  define y :: real where "y = of_int \<lfloor>x + 1 / 2\<rfloor>"
  have ylo: "x - 1 / 2 < y" unfolding y_def by linarith
  have yhi: "y \<le> x + 1 / 2" unfolding y_def by linarith
  have yhi': "y < x + ls / 4"
  proof (cases "ls = 2")
    case True
    then have "x = of_int (2 * (n + 2))" by (simp add: x_def)
    then have "y = x" unfolding y_def by (simp only: floor_add_int floor_of_int) simp
    then show ?thesis using ls by simp
  next
    case False
    with ls yhi show ?thesis by simp
  qed
  have pos: "0 < ls" using ls by simp
  have eq: "2 * (y / ls - 2) + 1 / 2 = (2 * y - 7 / 2 * ls) / ls"
    using pos by (simp add: field_simps)
  have lo: "of_int (2 * n) \<le> 2 * (y / ls - 2) + 1 / 2"
    unfolding eq using pos ylo ls by (simp add: pos_le_divide_eq x_def algebra_simps)
  have hi: "2 * (y / ls - 2) + 1 / 2 < of_int (2 * n) + 1"
    unfolding eq using pos yhi' by (simp add: pos_divide_less_eq x_def algebra_simps)
  have "\<lfloor>2 * (y / ls - 2) + 1 / 2\<rfloor> = 2 * n"
    using lo hi by (rule floor_unique)
  then show ?thesis
    by (simp add: getStaffLineNumber_def getYForStaffLineNumber_def Math_round_def
        staffLedgerSpace_def x_def y_def)
qed

text \<open>
  Claim C1, as amended. For a display height of at least 18 (a line spacing of at least 2;
  the code always uses 64) and every integer line number from 0 to 4, snapping the
  vertical offset of the line gives the line back:
  \<^verbatim>\<open>getStaffLineNumber(getYForStaffLineNumber(line, lineSpacing), lineSpacing) == line\<close>.
\<close>

theorem snap_roundtrip:
  fixes line :: int
  assumes "18 \<le> style_height canvas" and "0 \<le> line" and "line \<le> 4"
  shows "getStaffLineNumber (getYForStaffLineNumber (of_int line) (getLineSpacing canvas))
           (getLineSpacing canvas) = of_int line"
proof -
  have "2 \<le> getLineSpacing canvas"
    using assms(1) by (simp add: getLineSpacing_def numStaffLines_def staffLedgerSpace_def)
  then show ?thesis by (rule snap_roundtrip_spacing)
qed

text \<open>The round trip at the height of the code, 64, for line 3.\<close>

theorem snap_roundtrip_witness:
  "18 \<le> style_height (configureCanvas 400 64 new_canvas) \<and> (0::int) \<le> 3 \<and> (3::int) \<le> 4
   \<and> getStaffLineNumber
        (getYForStaffLineNumber (of_int 3) (getLineSpacing (configureCanvas 400 64 new_canvas)))
        (getLineSpacing (configureCanvas 400 64 new_canvas)) = of_int 3"
  using snap_roundtrip [of "configureCanvas 400 64 new_canvas" 3]
  by (simp add: configureCanvas_def canvas_ops new_canvas_def)

text \<open>
  Claim C1 as stated, for every display height above 0, fails at height 1 and line 0: the
  spacing is 1/9, the offset of line 0 rounds to 0, and 0 snaps to line -2.
\<close>

theorem snap_roundtrip_counterexample:
  "0 < style_height (new_canvas\<lparr>style_height := 1\<rparr>)
   \<and> getStaffLineNumber
        (getYForStaffLineNumber 0 (getLineSpacing (new_canvas\<lparr>style_height := 1\<rparr>)))
        (getLineSpacing (new_canvas\<lparr>style_height := 1\<rparr>)) = - 2"
  by (simp add: getStaffLineNumber_def getYForStaffLineNumber_def getLineSpacing_def
      Math_round_def numStaffLines_def staffLedgerSpace_def new_canvas_def)

text \<open>
  Claim C2, as amended. On a canvas configured with display height 64, \<^verbatim>\<open>drawStaffLines\<close>
  with \<open>lineSpacing = displayHeight / (numStaffLines + staffLedgerSpace)\<close> strokes the
  five lines at the offsets 14, 21, 28, 36, 43; the offsets 16, 24, 32, 40, 48 are those of
  the earlier \<^verbatim>\<open>drawStaffLines\<close>, which divides by \<open>numLines + ledgerSpace - 1\<close>.
\<close>

theorem staff_lines_64:
  "stroked_ys (bitmap (drawStaffLines (configureCanvas w 64 c))) = [14, 21, 28, 36, 43]
   \<and> stroked_ys (bitmap (drawStaffLines_v1 (configureCanvas w 64 c))) = [16, 24, 32, 40, 48]"
  by (simp add: drawStaffLines_def drawStaffLines_v1_def strokeStaffLine_def
      getYForStaffLineNumber_def getLineSpacing_def Math_round_def numStaffLines_def
      staffLedgerSpace_def upt_rec configureCanvas_def canvas_ops Let_def)

text \<open>
  Claim C2 as stated fails: with the divisor \<open>numStaffLines + staffLedgerSpace\<close> the
  offsets drawn at height 64 are not 16, 24, 32, 40, 48.
\<close>

theorem staff_lines_64_counterexample:
  "stroked_ys (bitmap (drawStaffLines (configureCanvas 400 64 new_canvas)))
     \<noteq> [16, 24, 32, 40, 48]"
  by (simp add: drawStaffLines_def strokeStaffLine_def
      getYForStaffLineNumber_def getLineSpacing_def Math_round_def numStaffLines_def
      staffLedgerSpace_def upt_rec configureCanvas_def canvas_ops Let_def new_canvas_def)

text \<open>
  Claim C7. For every vertical offset and every display height above 0, the line number
  that \<^verbatim>\<open>getStaffLineNumber\<close> returns is an integer multiple of 0.5.
\<close>

theorem snap_half_grid:
  "0 < style_height canvas \<Longrightarrow>
     \<exists>k::int. getStaffLineNumber y (getLineSpacing canvas) = of_int k / 2"
  by (auto simp: getStaffLineNumber_def Math_round_def)

text \<open>The offset 21 at height 64.\<close>

theorem snap_half_grid_witness:
  "0 < style_height (new_canvas\<lparr>style_height := 64\<rparr>)
   \<and> (\<exists>k::int. getStaffLineNumber 21 (getLineSpacing (new_canvas\<lparr>style_height := 64\<rparr>))
         = of_int k / 2)"
  using snap_half_grid [of "new_canvas\<lparr>style_height := 64\<rparr>" 21]
  by (simp add: new_canvas_def)

text \<open>
  Claim C9. For a fixed line spacing above 0, \<^verbatim>\<open>getStaffLineNumber\<close> is monotone in the
  vertical offset: a larger offset never snaps to a smaller line number.
\<close>

theorem snap_monotone:
  "0 < lineSpacing \<Longrightarrow> y1 \<le> y2 \<Longrightarrow>
     getStaffLineNumber y1 lineSpacing \<le> getStaffLineNumber y2 lineSpacing"
  unfolding getStaffLineNumber_def Math_round_def
  by (simp add: divide_right_mono floor_mono)

text \<open>The offsets 10 and 30 at the line spacing 64/9.\<close>

theorem snap_monotone_witness:
  "(0::real) < 64 / 9 \<and> (10::real) \<le> 30
   \<and> getStaffLineNumber 10 (64 / 9) \<le> getStaffLineNumber 30 (64 / 9)"
  using snap_monotone [of "64 / 9" 10 30] by simp

section \<open>Properties of the debounced save\<close>

text \<open>
  While a burst lasts there is one active timer, the one of the last trigger, and
  \<^verbatim>\<open>func\<close> has not run.
\<close>

lemma inv_step:
  assumes "timers s = [(i, t + w)]" "timeout s = Some i" "t \<le> u" "u < t + w"
  shows "timers (executedFunction w u (run_due u s)) = [(next_id s, u + w)]
       \<and> timeout (executedFunction w u (run_due u s)) = Some (next_id s)
       \<and> calls (executedFunction w u (run_due u s)) = calls s"
  using assms by (simp add: run_due_def executedFunction_def clearTimeout_def setTimeout_def)

lemma burst_calls:
  assumes "timers s = [(i, t + w)]" "timeout s = Some i" "burst w (t # ts)"
  shows "calls (run_triggers w ts s) = calls s @ [last (t # ts) + w]"
  using assms
proof (induction ts arbitrary: s i t)
  case Nil
  then show ?case by (simp add: fire_def later_def clearTimeout_def)
next
  case (Cons u us)
  from Cons.prems have tu: "t \<le> u" "u < t + w" and b: "burst w (u # us)" by simp_all
  let ?s = "executedFunction w u (run_due u s)"
  have st: "timers ?s = [(next_id s, u + w)]" "timeout ?s = Some (next_id s)" "calls ?s = calls s"
    using inv_step [OF Cons.prems(1,2) tu] by simp_all
  have "calls (run_triggers w us ?s) = calls ?s @ [last (u # us) + w]"
    using st(1,2) b by (rule Cons.IH)
  then show ?case using st(3) by simp
qed

lemma first_trigger:
  "timers (executedFunction w t (run_due t debounce)) = [(1, t + w)]
   \<and> timeout (executedFunction w t (run_due t debounce)) = Some 1
   \<and> calls (executedFunction w t (run_due t debounce)) = []"
  by (simp add: run_due_def executedFunction_def clearTimeout_def setTimeout_def debounce_def)

text \<open>
  Claim C4. The debounced save is trailing-edge: one or more calls of \<^verbatim>\<open>saveState\<close>, each
  less than 1000 ms after the one before, make the save run exactly once, 1000 ms after
  the last call; each call clears the timer of the one before instead of adding a save.
\<close>

theorem debounce_one_write:
  assumes "ts \<noteq> []" and "burst saveState_wait ts"
  shows "calls (run_triggers saveState_wait ts debounce) = [last ts + 1000]"
proof -
  from assms(1) obtain t us where ts: "ts = t # us" by (cases ts) auto
  let ?s = "executedFunction saveState_wait t (run_due t debounce)"
  have "calls (run_triggers saveState_wait us ?s) = calls ?s @ [last (t # us) + saveState_wait]"
    using first_trigger [of saveState_wait t] assms(2) unfolding ts
    by (intro burst_calls [where i = 1]) simp_all
  then show ?thesis using first_trigger [of saveState_wait t]
    by (simp add: ts saveState_wait_def)
qed

text \<open>Five calls 200 ms apart: one save, 1000 ms after the fifth.\<close>

theorem debounce_one_write_witness:
  "[0, 200, 400, 600, 800] \<noteq> ([]::nat list) \<and> burst saveState_wait [0, 200, 400, 600, 800]
   \<and> calls (run_triggers saveState_wait [0, 200, 400, 600, 800] debounce) = [1800]"
  using debounce_one_write [of "[0, 200, 400, 600, 800]"]
  by (simp add: saveState_wait_def)

section \<open>Properties of the initialisation\<close>








section \<open>Properties of the gestures\<close>

lemma draw_tool:
  "is_note c1 = is_note c2 \<Longrightarrow> draw ev c1 lc = draw ev c2 lc"
  by (cases "dataset_tool c1 = Some ''note''")
    (auto simp: draw_def is_note_def Let_def
      split: prod.splits sum.splits bool.splits option.splits list.splits)

lemma draw_keeps_state:
  "\<not> is_note c \<Longrightarrow> draw ev c lc = Inr lc' \<Longrightarrow> state (snd lc') = state (snd lc)"
  by (auto simp: draw_def is_note_def Let_def stroke_def lineTo_def
      split: prod.splits if_splits sum.splits bool.splits option.splits list.splits)

lemma draw_all_same:
  "list_all2 (\<lambda>m1 m2. fst m1 = fst m2 \<and> is_note (snd m1) = is_note (snd m2)) ms1 ms2 \<Longrightarrow>
     draw_all ms1 lc = draw_all ms2 lc"
proof (induction ms1 ms2 arbitrary: lc rule: list_all2_induct)
  case Nil
  show ?case by simp
next
  case (Cons m1 ms1 m2 ms2)
  then have "draw (fst m1) (snd m1) lc = draw (fst m2) (snd m2) lc"
    using draw_tool [of "snd m1" "snd m2" "fst m2" lc] by simp
  with Cons.IH show ?case by (simp split: sum.splits)
qed

lemma draw_all_keeps_state:
  "list_all (\<lambda>m. \<not> is_note (snd m)) ms \<Longrightarrow> draw_all ms lc = Inr lc' \<Longrightarrow>
     state (snd lc') = state (snd lc)"
proof (induction ms arbitrary: lc)
  case Nil
  then show ?case by simp
next
  case (Cons m ms)
  from Cons.prems(2) obtain lc1 where d: "draw (fst m) (snd m) lc = Inr lc1"
    and r: "draw_all ms lc1 = Inr lc'"
    by (auto split: sum.splits)
  from Cons.prems(1) d have "state (snd lc1) = state (snd lc)"
    by (intro draw_keeps_state [of "snd m" "fst m" lc lc1]) simp_all
  moreover from Cons.IH [of lc1] Cons.prems(1) r have "state (snd lc') = state (snd lc1)"
    by simp
  ultimately show ?case by simp
qed

text \<open>What \<^verbatim>\<open>startDrawing\<close> leaves in the context for the eraser and for the pencil.\<close>

lemma startDrawing_erase:
  "on_canvas ev \<Longrightarrow> dataset_tool c = Some ''erase'' \<Longrightarrow>
     globalCompositeOperation (state (snd (startDrawing ev c lc))) = ''destination-out''
     \<and> lineWidth (state (snd (startDrawing ev c lc))) = 10"
  by (cases lc)
    (simp add: startDrawing_def Let_def ctx_save_def moveTo_def beginPath_def eraserWidth_def)

lemma startDrawing_write:
  "on_canvas ev \<Longrightarrow> dataset_tool c = Some ''write'' \<Longrightarrow>
     globalCompositeOperation (state (snd (startDrawing ev c lc))) = ''source-over''
     \<and> strokeStyle (state (snd (startDrawing ev c lc))) = ''black''
     \<and> lineWidth (state (snd (startDrawing ev c lc))) = 2"
  by (cases lc)
    (simp add: startDrawing_def Let_def ctx_save_def moveTo_def beginPath_def pencilWidth_def)

text \<open>A move that is handled paints one operation for a stroke and two for a note-head.\<close>

lemma drawNotehead_bitmap:
  "length (bitmap (drawNotehead l p cv)) = length (bitmap cv) + 2"
  by (simp add: drawNotehead_def Let_def clearRect_def fill_def ellipse_def moveTo_def
      beginPath_def)

lemma draw_note_differs:
  assumes "isDrawing (fst lc)" "on_canvas ev" "is_note c1 \<noteq> is_note c2"
  shows "draw ev c1 lc \<noteq> draw ev c2 lc"
proof -
  obtain l cv where lc: "lc = (l, cv)" by (cases lc)
  have one: "length (bitmap (stroke (lineTo x y cv))) = length (bitmap cv) + 1" for x y
    by (simp add: stroke_def lineTo_def)
  have "bitmap (drawNotehead l p cv) \<noteq> bitmap (stroke (lineTo x y cv))" for p x y
    using drawNotehead_bitmap [of l p cv] one [of x y] by auto
  then have ne: "drawNotehead l p cv \<noteq> stroke (lineTo x y cv)" for p x y
    by metis
  show ?thesis
    using assms ne [of "getCoords cv ev" "fst (getCoords cv ev)" "snd (getCoords cv ev)"]
    unfolding lc
    by (cases "dataset_tool c1 = Some ''note''")
      (auto simp: draw_def is_note_def Let_def)
qed

text \<open>
  Claim C5, as amended. The compositing of a gesture with the eraser or the pencil is set
  at pointer-down (\<^verbatim>\<open>destination-out\<close> and width 10, or \<^verbatim>\<open>source-over\<close>, black and width 2)
  and stays through the pointer-moves of a tool other than note. Each pointer-move reads
  the selected tool again, but only to tell note from the other tools: two runs of the
  same moves in which, at each move, the selected tool is note in both or in neither, give
  the same result, so a change between pencil and erase during a gesture has no effect on
  its remaining moves. A change to or from note has: a move that is handled with note
  selected never gives what it gives with another tool selected.
\<close>

theorem gesture_mode:
  "(on_canvas ev0 \<and> list_all (\<lambda>m. \<not> is_note (snd m)) ms
      \<and> draw_all ms (startDrawing ev0 c0 lc0) = Inr lc' \<longrightarrow>
        (dataset_tool c0 = Some ''erase'' \<longrightarrow>
           globalCompositeOperation (state (snd lc')) = ''destination-out''
           \<and> lineWidth (state (snd lc')) = 10)
      \<and> (dataset_tool c0 = Some ''write'' \<longrightarrow>
           globalCompositeOperation (state (snd lc')) = ''source-over''
           \<and> strokeStyle (state (snd lc')) = ''black''
           \<and> lineWidth (state (snd lc')) = 2))
   \<and> (list_all2 (\<lambda>m1 m2. fst m1 = fst m2 \<and> is_note (snd m1) = is_note (snd m2)) ms1 ms2 \<longrightarrow>
        draw_all ms1 lc = draw_all ms2 lc
        \<and> (list_all (\<lambda>m. \<not> is_note (snd m)) ms1 \<longrightarrow>
             (\<forall>lc''. draw_all ms1 lc = Inr lc'' \<longrightarrow> state (snd lc'') = state (snd lc))))
   \<and> (isDrawing (fst lc1) \<and> on_canvas ev \<and> is_note c1 \<noteq> is_note c2 \<longrightarrow>
        draw ev c1 lc1 \<noteq> draw ev c2 lc1)"
proof (intro conjI impI allI)
  assume a: "on_canvas ev0 \<and> list_all (\<lambda>m. \<not> is_note (snd m)) ms
      \<and> draw_all ms (startDrawing ev0 c0 lc0) = Inr lc'"
  then have st: "state (snd lc') = state (snd (startDrawing ev0 c0 lc0))"
    using draw_all_keeps_state by blast
  {
    assume "dataset_tool c0 = Some ''erase''"
    with a st startDrawing_erase [of ev0 c0 lc0]
    show "globalCompositeOperation (state (snd lc')) = ''destination-out''"
      and "lineWidth (state (snd lc')) = 10" by simp_all
  }
  {
    assume "dataset_tool c0 = Some ''write''"
    with a st startDrawing_write [of ev0 c0 lc0]
    show "globalCompositeOperation (state (snd lc')) = ''source-over''"
      and "strokeStyle (state (snd lc')) = ''black''"
      and "lineWidth (state (snd lc')) = 2" by simp_all
  }
next
  assume "list_all2 (\<lambda>m1 m2. fst m1 = fst m2 \<and> is_note (snd m1) = is_note (snd m2)) ms1 ms2"
  then show "draw_all ms1 lc = draw_all ms2 lc" by (rule draw_all_same)
next
  fix lc''
  assume "list_all (\<lambda>m. \<not> is_note (snd m)) ms1" and "draw_all ms1 lc = Inr lc''"
  then show "state (snd lc'') = state (snd lc)" by (rule draw_all_keeps_state)
next
  assume "isDrawing (fst lc1) \<and> on_canvas ev \<and> is_note c1 \<noteq> is_note c2"
  then show "draw ev c1 lc1 \<noteq> draw ev c2 lc1"
    using draw_note_differs by blast
qed

text \<open>
  Claim C5 as stated fails: a gesture begins with the pencil, the note button is clicked,
  and the next pointer-move stamps a note-head where, without the click, it extends the
  stroke.
\<close>

theorem gesture_mode_counterexample:
  "draw (mouse_at 20 30) (toolButtons_click ''note'' (new_container ''staff_1''))
     (startDrawing (mouse_at 10 10) (new_container ''staff_1'')
        (idle, configureCanvas 688 64 new_canvas))
   \<noteq> draw (mouse_at 20 30) (new_container ''staff_1'')
       (startDrawing (mouse_at 10 10) (new_container ''staff_1'')
          (idle, configureCanvas 688 64 new_canvas))"
  by (simp add: draw_def startDrawing_def mouse_at_def idle_def new_container_def
      toolButtons_click_def getCoords_def drawNotehead_def Let_def canvas_ops fill_def
      ellipse_def configureCanvas_def new_canvas_def)

text \<open>
  Three gestures on a new staff. One begins with the eraser, and the pencil is chosen
  before its second move: the compositing at its end is that of the eraser. One begins
  with the pencil and is run twice, with the pencil kept and with the eraser chosen before
  the second move: the results are the same. One begins with note: its first move gives
  another result when the pencil has been chosen before it.
\<close>

theorem gesture_mode_witness:
  "(on_canvas (mouse_at 10 10)
    \<and> list_all (\<lambda>m. \<not> is_note (snd m))
         [(mouse_at 20 30, toolButtons_click ''erase'' (new_container ''staff_1'')),
          (mouse_at 25 35, new_container ''staff_1'')]
    \<and> dataset_tool (toolButtons_click ''erase'' (new_container ''staff_1'')) = Some ''erase''
    \<and> (\<exists>lc'. draw_all
                 [(mouse_at 20 30, toolButtons_click ''erase'' (new_container ''staff_1'')),
                  (mouse_at 25 35, new_container ''staff_1'')]
                 (startDrawing (mouse_at 10 10)
                    (toolButtons_click ''erase'' (new_container ''staff_1''))
                    (idle, configureCanvas 688 64 new_canvas)) = Inr lc'
              \<and> globalCompositeOperation (state (snd lc')) = ''destination-out''
              \<and> lineWidth (state (snd lc')) = 10))
   \<and> (list_all2 (\<lambda>m1 m2. fst m1 = fst m2 \<and> is_note (snd m1) = is_note (snd m2))
         [(mouse_at 20 30, new_container ''staff_1''), (mouse_at 25 35, new_container ''staff_1'')]
         [(mouse_at 20 30, new_container ''staff_1''),
          (mouse_at 25 35, toolButtons_click ''erase'' (new_container ''staff_1''))]
       \<and> draw_all
            [(mouse_at 20 30, new_container ''staff_1''),
             (mouse_at 25 35, new_container ''staff_1'')]
            (startDrawing (mouse_at 10 10) (new_container ''staff_1'')
               (idle, configureCanvas 688 64 new_canvas))
          = draw_all
              [(mouse_at 20 30, new_container ''staff_1''),
               (mouse_at 25 35, toolButtons_click ''erase'' (new_container ''staff_1''))]
              (startDrawing (mouse_at 10 10) (new_container ''staff_1'')
                 (idle, configureCanvas 688 64 new_canvas)))
   \<and> (isDrawing (fst (startDrawing (mouse_at 10 10)
                          (toolButtons_click ''note'' (new_container ''staff_1''))
                          (idle, configureCanvas 688 64 new_canvas)))
       \<and> on_canvas (mouse_at 20 30)
       \<and> is_note (toolButtons_click ''note'' (new_container ''staff_1''))
           \<noteq> is_note (new_container ''staff_1'')
       \<and> draw (mouse_at 20 30) (toolButtons_click ''note'' (new_container ''staff_1''))
            (startDrawing (mouse_at 10 10)
               (toolButtons_click ''note'' (new_container ''staff_1''))
               (idle, configureCanvas 688 64 new_canvas))
          \<noteq> draw (mouse_at 20 30) (new_container ''staff_1'')
              (startDrawing (mouse_at 10 10)
                 (toolButtons_click ''note'' (new_container ''staff_1''))
                 (idle, configureCanvas 688 64 new_canvas)))"
proof -
  let ?cW = "new_container ''staff_1''"
  let ?cE = "toolButtons_click ''erase'' (new_container ''staff_1'')"
  let ?cN = "toolButtons_click ''note'' (new_container ''staff_1'')"
  let ?lc0 = "(idle, configureCanvas 688 64 new_canvas)"
  let ?msE = "[(mouse_at 20 30, ?cE), (mouse_at 25 35, ?cW)]"
  let ?ms1 = "[(mouse_at 20 30, ?cW), (mouse_at 25 35, ?cW)]"
  let ?ms2 = "[(mouse_at 20 30, ?cW), (mouse_at 25 35, ?cE)]"
  let ?lcE = "startDrawing (mouse_at 10 10) ?cE ?lc0"
  let ?lcW = "startDrawing (mouse_at 10 10) ?cW ?lc0"
  let ?lcN = "startDrawing (mouse_at 10 10) ?cN ?lc0"
  note tools = is_note_def new_container_def toolButtons_click_def
  have a1: "on_canvas (mouse_at 10 10)" "on_canvas (mouse_at 20 30)"
    by (simp_all add: mouse_at_def)
  have a2: "list_all (\<lambda>m. \<not> is_note (snd m)) ?msE"
    by (simp add: tools)
  have a3: "dataset_tool ?cE = Some ''erase''"
    by (simp add: tools)
  have "\<exists>lc'. draw_all ?msE ?lcE = Inr lc'"
    by (simp add: draw_def startDrawing_def mouse_at_def idle_def tools Let_def)
  then obtain lc' where a4: "draw_all ?msE ?lcE = Inr lc'" ..
  have b1: "list_all2 (\<lambda>m1 m2. fst m1 = fst m2 \<and> is_note (snd m1) = is_note (snd m2)) ?ms1 ?ms2"
    by (simp add: tools)
  have c1: "isDrawing (fst ?lcN)"
    by (simp add: startDrawing_def mouse_at_def idle_def Let_def)
  have c2: "is_note ?cN \<noteq> is_note ?cW"
    by (simp add: tools)
  note g = gesture_mode [where ?ev0.0 = "mouse_at 10 10" and ms = ?msE and ?c0.0 = ?cE
      and ?lc0.0 = ?lc0 and lc' = lc' and ?ms1.0 = ?ms1 and ?ms2.0 = ?ms2 and lc = ?lcW
      and ?lc1.0 = ?lcN and ev = "mouse_at 20 30" and ?c1.0 = ?cN and ?c2.0 = ?cW]
  from g a1 a2 a3 a4
  have A: "globalCompositeOperation (state (snd lc')) = ''destination-out''
           \<and> lineWidth (state (snd lc')) = 10" by blast
  from g b1 have B: "draw_all ?ms1 ?lcW = draw_all ?ms2 ?lcW" by blast
  from g a1 c1 c2 have C: "draw (mouse_at 20 30) ?cN ?lcN \<noteq> draw (mouse_at 20 30) ?cW ?lcN"
    by blast
  from a1 a2 a3 a4 A b1 B c1 c2 C show ?thesis by blast
qed

section \<open>Properties of the save\<close>

text \<open>The entries that the loop of \<^verbatim>\<open>buildStateObject\<close> adds are those of the exportable containers.\<close>

lemma saveContainer_keys:
  "fst ` set (fst (saveContainer h acc c)) = fst ` set (fst acc) \<union> set (exportable c)"
  by (auto simp: saveContainer_def toDataURL_def assign_string_def dom_update
      split: option.splits)

lemma saveContainers_keys:
  "fst ` set (fst (foldl (saveContainer h) acc cs))
     = fst ` set (fst acc) \<union> set (concat (map exportable cs))"
proof (induction cs arbitrary: acc)
  case Nil
  show ?case by simp
next
  case (Cons c cs)
  have "fst ` set (fst (foldl (saveContainer h) (saveContainer h acc c) cs))
          = fst ` set (fst (saveContainer h acc c)) \<union> set (concat (map exportable cs))"
    by (rule Cons.IH)
  then show ?case by (simp add: saveContainer_keys Un_assoc)
qed

lemma exportable_widget_ids:
  "set (concat (map exportable cs))
     \<subseteq> set (concat (map (\<lambda>c. case dataset_id c of None \<Rightarrow> [] | Some i \<Rightarrow> [i]) cs))"
  by (induction cs) (auto split: option.splits if_splits)

text \<open>
  Claim C3, as amended. After a save that completes (the storage takes the snapshot), the
  ids with an ink entry in the stored snapshot are exactly the ids of the containers of
  the document that have an id other than the empty one and \<^verbatim>\<open>__proto__\<close>, and a drawing
  canvas whose export succeeds: every one of them is the id of a widget of the document,
  and no entry of a removed widget stays. A widget without drawing canvas, or whose export
  throws, or whose id is \<^verbatim>\<open>__proto__\<close>, has no entry.
\<close>

theorem save_ink_entries:
  assumes "\<not> quotaExceeded h (localStorage pg) stateKey (fst (buildStateObject h pg))"
  shows "set (stored_ink_ids (saveState_now h pg)) = set (exportable_ids pg)
         \<and> set (exportable_ids pg) \<subseteq> set (widget_ids pg)"
proof
  obtain canvases logs where f:
    "foldl (saveContainer h) ([], []) (querySelectorAll_staff (editableArea pg)) = (canvases, logs)"
    by (cases "foldl (saveContainer h) ([], []) (querySelectorAll_staff (editableArea pg))")
  have b: "buildStateObject h pg =
             (JObject [(''content'', JString (serializeHTML h (editableArea pg))),
                       (''canvases'', JObject canvases)], logs)"
    by (simp add: buildStateObject_def f)
  have "stored_ink_ids (saveState_now h pg) = map fst canvases"
    using assms
    by (simp add: saveState_now_def b setItem_def stored_ink_ids_def update_conv')
  moreover have "fst ` set canvases = set (exportable_ids pg)"
    using saveContainers_keys [of h "([], [])" "querySelectorAll_staff (editableArea pg)"]
    by (simp add: f exportable_ids_def)
  ultimately show "set (stored_ink_ids (saveState_now h pg)) = set (exportable_ids pg)"
    by simp
next
  show "set (exportable_ids pg) \<subseteq> set (widget_ids pg)"
    unfolding exportable_ids_def widget_ids_def by (rule exportable_widget_ids)
qed

text \<open>
  The scenario of the claim: a document with two staves is saved, the second staff is
  removed, and the document is saved again: one ink entry is left, that of the first.
\<close>

theorem save_ink_entries_witness:
  "\<not> quotaExceeded plain_host
       (localStorage
          ((saveState_now plain_host
              (page_of [Staff (new_container ''staff_1''), Staff (new_container ''staff_2'')]))
           \<lparr>editableArea := [Staff (new_container ''staff_1'')]\<rparr>))
       stateKey
       (fst (buildStateObject plain_host
          ((saveState_now plain_host
              (page_of [Staff (new_container ''staff_1''), Staff (new_container ''staff_2'')]))
           \<lparr>editableArea := [Staff (new_container ''staff_1'')]\<rparr>)))
   \<and> stored_ink_ids
        (saveState_now plain_host
           (page_of [Staff (new_container ''staff_1''), Staff (new_container ''staff_2'')]))
      = [''staff_1'', ''staff_2'']
   \<and> set (stored_ink_ids
        (saveState_now plain_host
          ((saveState_now plain_host
              (page_of [Staff (new_container ''staff_1''), Staff (new_container ''staff_2'')]))
           \<lparr>editableArea := [Staff (new_container ''staff_1'')]\<rparr>)))
      = {''staff_1''}"
proof -
  let ?pg = "(saveState_now plain_host
              (page_of [Staff (new_container ''staff_1''), Staff (new_container ''staff_2'')]))
           \<lparr>editableArea := [Staff (new_container ''staff_1'')]\<rparr>"
  have q: "\<not> quotaExceeded plain_host (localStorage ?pg) stateKey
             (fst (buildStateObject plain_host ?pg))"
    by (simp add: plain_host_def)
  have first: "stored_ink_ids
        (saveState_now plain_host
           (page_of [Staff (new_container ''staff_1''), Staff (new_container ''staff_2'')]))
      = [''staff_1'', ''staff_2'']"
    by (simp add: saveState_now_def buildStateObject_def saveContainer_def toDataURL_def
        assign_string_def setItem_def stored_ink_ids_def page_of_def new_container_def
        new_canvas_def plain_host_def stateKey_def localStorageKeyBase_def)
  have e: "set (exportable_ids ?pg) = {''staff_1''}"
    by (simp add: exportable_ids_def new_container_def new_canvas_def)
  from save_ink_entries [OF q] e
  have "set (stored_ink_ids (saveState_now plain_host ?pg)) = {''staff_1''}" by simp
  with q first show ?thesis by blast
qed

text \<open>
  Claim C3 as stated fails: a staff whose drawing canvas is missing from the markup has an
  id in the document and no ink entry after the save.
\<close>

theorem save_ink_entries_counterexample:
  "set (stored_ink_ids
          (saveState_now plain_host
             (page_of [Staff ((new_container ''staff_1'')\<lparr>drawing_area := None\<rparr>)])))
   \<noteq> set (widget_ids (page_of [Staff ((new_container ''staff_1'')\<lparr>drawing_area := None\<rparr>)]))"
  by (simp add: saveState_now_def buildStateObject_def saveContainer_def
      setItem_def stored_ink_ids_def page_of_def new_container_def widget_ids_def
      plain_host_def stateKey_def localStorageKeyBase_def)

section \<open>Properties of the import of pasted JSON\<close>











section \<open>Properties of the restoration\<close>




lemma truthy_Some: "truthy v \<Longrightarrow> \<exists>y. v = Some y"
  by (cases v) simp_all








section \<open>The earlier save\<close>

text \<open>
  The scenario of claim C3 on the earlier save: two staves are saved, the second is
  removed, the document is saved again, and one ink key is left.
\<close>

lemma saveState_v1_scenario:
  "stored_ink_keys_v1
     (saveState_v1 plain_host
        ((saveState_v1 plain_host
            (page_of [Staff (new_container ''staff_1''), Staff (new_container ''staff_2'')]))
         \<lparr>editableArea := [Staff (new_container ''staff_1'')]\<rparr>))
   = [''editableMusicNotation_canvas_staff_1'']"
  by (simp add: saveState_v1_def saveContainer_v1_def cleanup.simps toDataURL_def setItem_def
      stored_ink_keys_v1_def startsWith_def contentKey_def canvasDataPrefix_def
      localStorageKeyBase_def page_of_def new_container_def new_canvas_def plain_host_def
      AList.delete_eq Let_def)

text \<open>
  The clean-up loop goes on to index \<open>i + 1\<close> after it has removed the key at \<open>i\<close>, and so
  passes over the key that has moved to \<open>i\<close>: when both staves are removed, the ink of the
  second stays in the storage.
\<close>

lemma saveState_v1_leak:
  "stored_ink_keys_v1
     (saveState_v1 plain_host
        ((saveState_v1 plain_host
            (page_of [Staff (new_container ''staff_1''), Staff (new_container ''staff_2'')]))
         \<lparr>editableArea := []\<rparr>))
   = [''editableMusicNotation_canvas_staff_2'']"
  by (simp add: saveState_v1_def saveContainer_v1_def cleanup.simps toDataURL_def setItem_def
      stored_ink_keys_v1_def startsWith_def contentKey_def canvasDataPrefix_def
      localStorageKeyBase_def page_of_def new_container_def new_canvas_def plain_host_def
      AList.delete_eq Let_def)

end
